theory Spec2Isabelle
  imports Main
begin

section \<open>Go library functions used by the resource\<close>

subsection \<open>strings.Trim\<close>

text \<open>
  A Go string is a sequence of bytes, here a \<^typ>\<open>string\<close>.  \<open>strings.Trim(s, cutset)\<close>
  removes every leading and every trailing character of \<open>s\<close> that occurs in \<open>cutset\<close>.
  The resource only calls it with the one-byte cutset \<open>"/"\<close>.
\<close>

definition Trim :: "string \<Rightarrow> string \<Rightarrow> string" where
  "Trim s cutset =
     rev (dropWhile (\<lambda>c. c \<in> set cutset) (rev (dropWhile (\<lambda>c. c \<in> set cutset) s)))"

subsection \<open>regexp: syntax trees and the backtracking matcher\<close>

text \<open>
  The part of Go's \<open>regexp/syntax\<close> that the pattern of this resource uses: literals,
  \<open>.\<close> (any character but a newline, no \<open>s\<close> flag), \<open>^\<close> and \<open>$\<close> (begin and end of the
  text, no \<open>m\<close> flag), concatenation, \<open>+\<close> (greedy) and capture groups, numbered from 1.
\<close>

datatype regex =
    EmptyMatch
  | Literal string
  | AnyCharNotNL
  | BeginText
  | EndText
  | Concat regex regex
  | Plus regex
  | Capture nat regex

text \<open>
  A thread of the matcher: the text consumed so far (from the start of the input), the
  text still to read, and the capture registers.
\<close>

type_synonym thread = "string \<times> string \<times> string option list"

definition newline :: char where
  "newline = CHR 0x0A"

text \<open>
  \<open>x+\<close> is greedy: after one match of \<open>x\<close> the matcher prefers another round to leaving
  the loop.  A round that consumed nothing is not repeated.
\<close>

fun plus_iter :: "(thread \<Rightarrow> thread list) \<Rightarrow> thread \<Rightarrow> thread list" where
  "plus_iter f t =
     concat (map (\<lambda>t'. (if length (fst (snd t')) < length (fst (snd t))
                         then plus_iter f t' else []) @ [t'])
                 (f t))"

declare plus_iter.simps [simp del]

text \<open>
  All the ways a regex matches at the position of a thread, in the order of preference
  of Go's leftmost-first semantics.
\<close>

primrec step :: "regex \<Rightarrow> thread \<Rightarrow> thread list" where
  "step EmptyMatch t = [t]"
| "step (Literal w) t =
     (case t of (pre, rest, caps) \<Rightarrow>
        if take (length w) rest = w then [(pre @ w, drop (length w) rest, caps)] else [])"
| "step AnyCharNotNL t =
     (case t of (pre, rest, caps) \<Rightarrow>
        (case rest of
           [] \<Rightarrow> []
         | x # xs \<Rightarrow> if x \<noteq> newline then [(pre @ [x], xs, caps)] else []))"
| "step BeginText t = (case t of (pre, rest, caps) \<Rightarrow> if pre = [] then [t] else [])"
| "step EndText t = (case t of (pre, rest, caps) \<Rightarrow> if rest = [] then [t] else [])"
| "step (Concat a b) t = concat (map (step b) (step a t))"
| "step (Plus a) t = plus_iter (step a) t"
| "step (Capture i a) t =
     map (\<lambda>t'. (fst t', fst (snd t'),
                 (snd (snd t'))[i - 1 := Some (drop (length (fst t)) (fst t'))]))
         (step a t)"

primrec NumSubexp :: "regex \<Rightarrow> nat" where
  "NumSubexp EmptyMatch = 0"
| "NumSubexp (Literal w) = 0"
| "NumSubexp AnyCharNotNL = 0"
| "NumSubexp BeginText = 0"
| "NumSubexp EndText = 0"
| "NumSubexp (Concat a b) = NumSubexp a + NumSubexp b"
| "NumSubexp (Plus a) = NumSubexp a"
| "NumSubexp (Capture i a) = Suc (NumSubexp a)"

text \<open>
  The matches that start at offset \<open>k\<close> of the input \<open>s\<close>, each as the list that
  \<open>FindStringSubmatch\<close> returns: the whole match, then the text of every group (the
  empty string for a group that took no part in the match).
\<close>

definition submatches_at :: "regex \<Rightarrow> string \<Rightarrow> nat \<Rightarrow> string list list" where
  "submatches_at r s k =
     map (\<lambda>t. drop k (fst t) # map (\<lambda>c. case c of None \<Rightarrow> [] | Some g \<Rightarrow> g) (snd (snd t)))
         (step r (take k s, drop k s, replicate (NumSubexp r) None))"

text \<open>The search is unanchored: the leftmost start offset that has a match wins.\<close>

definition all_submatches :: "regex \<Rightarrow> string \<Rightarrow> string list list" where
  "all_submatches r s = concat (map (submatches_at r s) [0..<Suc (length s)])"

definition MatchString :: "regex \<Rightarrow> string \<Rightarrow> bool" where
  "MatchString r s = (all_submatches r s \<noteq> [])"

text \<open>\<open>FindStringSubmatch\<close> returns \<open>nil\<close>, a slice of length 0, when nothing matches.\<close>

definition FindStringSubmatch :: "regex \<Rightarrow> string \<Rightarrow> string list" where
  "FindStringSubmatch r s = (case all_submatches r s of [] \<Rightarrow> [] | m # _ \<Rightarrow> m)"

section \<open>The framework and the API client, as the resource sees them\<close>

subsection \<open>Errors\<close>

text \<open>
  Every \<open>fmt.Errorf\<close> of the resource is a constructor that keeps the arguments of the
  format; \<open>ClientError\<close> is an error of the API client, with its message.
\<close>

datatype err =
    NoBackendFound
  | UnexpectedMatches nat
  | ClientError string
  | InvalidPath string err
  | ErrorReading string err
  | ErrorConfiguring string err
  | ErrorCheckingExistence string err

text \<open>The verb \<open>%d\<close> of \<open>fmt\<close> on a non-negative integer.\<close>

fun decimal :: "nat \<Rightarrow> string" where
  "decimal n =
     (if n < 10 then [char_of (48 + n)]
      else decimal (n div 10) @ [char_of (48 + n mod 10)])"

declare decimal.simps [simp del]

text \<open>
  The message of an error (its method \<open>Error()\<close>), with the format strings of the source.
  The verb \<open>%q\<close> quotes a string as \<open>strconv.Quote\<close> does; the quoting function is the
  parameter \<open>q\<close>.
\<close>

primrec Error :: "(string \<Rightarrow> string) \<Rightarrow> err \<Rightarrow> string" where
  "Error q NoBackendFound = ''no backend found''"
| "Error q (UnexpectedMatches n) =
     ''unexpected number of matches ('' @ decimal n @ '') for backend''"
| "Error q (ClientError m) = m"
| "Error q (InvalidPath path e) =
     ''invalid path '' @ q path @ '' for AWS auth identity config:  '' @ Error q e"
| "Error q (ErrorReading path e) =
     ''error reading AWS auth backend identity config '' @ q path @ '': '' @ Error q e"
| "Error q (ErrorConfiguring path e) =
     ''error configuring AWS auth identity config '' @ q path @ '': '' @ Error q e"
| "Error q (ErrorCheckingExistence path e) =
     ''error checking for existence of AWS auth backend identity config '' @ q path @ '': ''
       @ Error q e"

subsection \<open>Values and schema.ResourceData\<close>

text \<open>
  A value of type \<open>interface{}\<close> as it occurs here: \<open>nil\<close>, a string, or a list of
  strings (a \<open>[]string\<close>, or the elements of a \<open>schema.Set\<close> of strings in the order of
  its \<open>List()\<close>).  A \<open>nil\<close> slice and an empty slice are both \<open>VStrings []\<close>.
\<close>

datatype val = VNil | VString string | VStrings "string list"

record resource_data =
  rd_id :: string
  rd_attrs :: "string \<rightharpoonup> val"

text \<open>The \<open>Default\<close> entries of the schema of \<open>awsAuthBackendConfigIdentityResource\<close>.\<close>

definition schema_default :: "string \<Rightarrow> string option" where
  "schema_default k =
     (if k = ''iam_alias'' then Some ''role_id''
      else if k = ''ec2_alias'' then Some ''role_id''
      else if k = ''backend'' then Some ''aws''
      else None)"

text \<open>
  \<open>d.Get(k).(string)\<close> for a field of type \<open>TypeString\<close>: the declared value, else the
  default of the schema, else the zero value.
\<close>

definition Get_string :: "resource_data \<Rightarrow> string \<Rightarrow> string" where
  "Get_string d k =
     (case rd_attrs d k of
        Some (VString s) \<Rightarrow> s
      | _ \<Rightarrow> (case schema_default k of Some s \<Rightarrow> s | None \<Rightarrow> []))"

text \<open>\<open>d.GetOk(k)\<close>: the value, and whether it is set to a value other than the zero value.\<close>

definition GetOk :: "resource_data \<Rightarrow> string \<Rightarrow> val \<times> bool" where
  "GetOk d k =
     (case rd_attrs d k of
        None \<Rightarrow> (VNil, False)
      | Some VNil \<Rightarrow> (VNil, False)
      | Some (VString s) \<Rightarrow> (VString s, s \<noteq> [])
      | Some (VStrings xs) \<Rightarrow> (VStrings xs, xs \<noteq> []))"

text \<open>
  Modelled from the spec: \<open>util.TerraformSetToStringArray\<close> is not among the sources; the
  spec has list-valued fields sent as string arrays, so the set becomes the list of its
  elements.
\<close>

definition TerraformSetToStringArray :: "val \<Rightarrow> string list" where
  "TerraformSetToStringArray v = (case v of VStrings xs \<Rightarrow> xs | _ \<Rightarrow> [])"

definition SetId :: "resource_data \<Rightarrow> string \<Rightarrow> resource_data" where
  "SetId d v = d\<lparr>rd_id := v\<rparr>"

text \<open>\<open>d.Set(k, v)\<close>; the resource ignores the error it may return.\<close>

definition Set_attr :: "resource_data \<Rightarrow> string \<Rightarrow> val \<Rightarrow> resource_data" where
  "Set_attr d k v = d\<lparr>rd_attrs := (rd_attrs d)(k \<mapsto> v)\<rparr>"

subsection \<open>api.Client\<close>

text \<open>
  \<open>api.Secret\<close> with the one field the resource reads.  Indexing a Go map at a missing
  key gives \<open>nil\<close>.
\<close>

record secret =
  Data :: "string \<rightharpoonup> val"

definition index_data :: "(string \<rightharpoonup> val) \<Rightarrow> string \<Rightarrow> val" where
  "index_data m k = (case m k of None \<Rightarrow> VNil | Some v \<Rightarrow> v)"

text \<open>
  The client talks to a remote server that the resource does not control: its state is
  \<open>remote\<close>, of any type, and \<open>read_fn\<close> and \<open>write_fn\<close> are what the server answers and the
  state it moves to.  \<open>calls\<close> records every request that was issued, oldest first.
\<close>

datatype api_call = ApiRead string | ApiWrite string "string \<rightharpoonup> val"

record 'r client =
  remote :: 'r
  calls :: "api_call list"
  read_fn :: "'r \<Rightarrow> string \<Rightarrow> (err + secret option) \<times> 'r"
  write_fn :: "'r \<Rightarrow> string \<Rightarrow> (string \<rightharpoonup> val) \<Rightarrow> (err + secret option) \<times> 'r"

text \<open>\<open>client.Logical().Read(path)\<close>\<close>

definition Logical_Read :: "'r client \<Rightarrow> string \<Rightarrow> (err + secret option) \<times> 'r client" where
  "Logical_Read c path =
     (case read_fn c (remote c) path of
        (res, r') \<Rightarrow> (res, c\<lparr>remote := r', calls := calls c @ [ApiRead path]\<rparr>))"

text \<open>\<open>client.Logical().Write(path, data)\<close>\<close>

definition Logical_Write ::
  "'r client \<Rightarrow> string \<Rightarrow> (string \<rightharpoonup> val) \<Rightarrow> (err + secret option) \<times> 'r client" where
  "Logical_Write c path data =
     (case write_fn c (remote c) path data of
        (res, r') \<Rightarrow> (res, c\<lparr>remote := r', calls := calls c @ [ApiWrite path data]\<rparr>))"

section \<open>resource\_aws\_auth\_backend\_config\_identity.go\<close>

text \<open>
  Each callback takes the resource data \<open>d\<close> and the client \<open>meta\<close> and returns its Go
  result together with both as it leaves them.  An \<open>error\<close> result is an \<open>err option\<close>,
  \<open>None\<close> for \<open>nil\<close>.  The output of \<open>log.Printf\<close> is not modelled.
\<close>

subsection \<open>Path builder and path parser\<close>

text \<open>\<open>regexp.MustCompile("^auth/(.+)/config/identity$")\<close>\<close>

definition awsAuthBackendConfigIdentityBackendFromPathRegex :: regex where
  "awsAuthBackendConfigIdentityBackendFromPathRegex =
     Concat BeginText
       (Concat (Literal ''auth/'')
          (Concat (Capture 1 (Plus AnyCharNotNL))
             (Concat (Literal ''/config/identity'') EndText)))"

definition awsAuthBackendConfigIdentityPath :: "string \<Rightarrow> string" where
  "awsAuthBackendConfigIdentityPath backend =
     ''auth/'' @ Trim backend ''/'' @ ''/config/identity''"

definition awsAuthBackendConfigIdentityBackendFromPath :: "string \<Rightarrow> err + string" where
  "awsAuthBackendConfigIdentityBackendFromPath path =
     (if \<not> MatchString awsAuthBackendConfigIdentityBackendFromPathRegex path
      then Inl NoBackendFound
      else
        let res = FindStringSubmatch awsAuthBackendConfigIdentityBackendFromPathRegex path in
        if length res \<noteq> 2 then Inl (UnexpectedMatches (length res))
        else Inr (res ! 1))"

subsection \<open>Read\<close>

definition awsAuthBackendConfigIdentityRead ::
  "resource_data \<Rightarrow> 'r client \<Rightarrow> err option \<times> resource_data \<times> 'r client" where
  "awsAuthBackendConfigIdentityRead d meta =
     (let path = rd_id d in
      case awsAuthBackendConfigIdentityBackendFromPath path of
        Inl e \<Rightarrow> (Some (InvalidPath path e), d, meta)
      | Inr backend \<Rightarrow>
          (case Logical_Read meta path of
             (Inl e, meta') \<Rightarrow> (Some (ErrorReading path e), d, meta')
           | (Inr None, meta') \<Rightarrow> (None, SetId d [], meta')
           | (Inr (Some resp), meta') \<Rightarrow>
               (let d1 = Set_attr d ''iam_alias'' (index_data (Data resp) ''iam_alias'');
                    d2 = Set_attr d1 ''iam_metadata'' (index_data (Data resp) ''iam_metadata'');
                    d3 = Set_attr d2 ''ec2_alias'' (index_data (Data resp) ''ec2_alias'');
                    d4 = Set_attr d3 ''ec2_metadata'' (index_data (Data resp) ''ec2_metadata'');
                    d5 = Set_attr d4 ''backend'' (VString backend)
                in (None, d5, meta'))))"

subsection \<open>Write\<close>

text \<open>The local variable \<open>data\<close> of \<open>awsAuthBackendConfigIdentityWrite\<close>.\<close>

definition awsAuthBackendConfigIdentityWrite_data :: "resource_data \<Rightarrow> (string \<rightharpoonup> val)" where
  "awsAuthBackendConfigIdentityWrite_data d =
     (let iamAlias = Get_string d ''iam_alias'';
          ec2Alias = Get_string d ''ec2_alias'';
          iamMetadata = (case GetOk d ''iam_metadata'' of
                           (iamMetadataConfig, ok) \<Rightarrow>
                             if ok then TerraformSetToStringArray iamMetadataConfig else []);
          ec2Metadata = (case GetOk d ''ec2_metadata'' of
                           (ec2MetadataConfig, ok) \<Rightarrow>
                             if ok then TerraformSetToStringArray ec2MetadataConfig else [])
      in [''iam_alias'' \<mapsto> VString iamAlias,
          ''iam_metadata'' \<mapsto> VStrings iamMetadata,
          ''ec2_alias'' \<mapsto> VString ec2Alias,
          ''ec2_metadata'' \<mapsto> VStrings ec2Metadata])"

definition awsAuthBackendConfigIdentityWrite ::
  "resource_data \<Rightarrow> 'r client \<Rightarrow> err option \<times> resource_data \<times> 'r client" where
  "awsAuthBackendConfigIdentityWrite d meta =
     (let backend = Get_string d ''backend'';
          path = awsAuthBackendConfigIdentityPath backend;
          data = awsAuthBackendConfigIdentityWrite_data d
      in case Logical_Write meta path data of
           (Inl e, meta') \<Rightarrow> (Some (ErrorConfiguring path e), d, meta')
         | (Inr _, meta') \<Rightarrow> awsAuthBackendConfigIdentityRead (SetId d path) meta')"

subsection \<open>Delete and Exists\<close>

definition awsAuthBackendConfigIdentityDelete ::
  "resource_data \<Rightarrow> 'r client \<Rightarrow> err option \<times> resource_data \<times> 'r client" where
  "awsAuthBackendConfigIdentityDelete d meta = (None, d, meta)"

definition awsAuthBackendConfigIdentityExists ::
  "resource_data \<Rightarrow> 'r client \<Rightarrow> (bool \<times> err option) \<times> resource_data \<times> 'r client" where
  "awsAuthBackendConfigIdentityExists d meta =
     (let path = rd_id d in
      case Logical_Read meta path of
        (Inl e, meta') \<Rightarrow> ((True, Some (ErrorCheckingExistence path e)), d, meta')
      | (Inr resp, meta') \<Rightarrow> ((resp \<noteq> None, None), d, meta'))"

section \<open>The entity alias resource\<close>

text \<open>
  Modelled from the spec: the entity alias of the data model, a binding of an identity of
  an authentication mount (mount accessor and name) to one canonical entity.  The
  resource file of the entity alias is not among the sources; only its acceptance test is.
\<close>

record entity_alias =
  alias_id :: string
  alias_name :: string
  alias_mount_accessor :: string
  alias_canonical_id :: string

text \<open>
  Modelled from the spec: the two kinds of error of the create callback of the entity alias
  resource (missing from the sources), the conflict on create and the generic validation
  failure.
\<close>

datatype alias_err =
    AliasAlreadyExists string string string
  | AliasInvalid string

text \<open>
  Modelled from the spec: the message of the conflict error of the missing create callback.
  The spec and the acceptance test fix three parts of it, in this order:
  \<open>IdentityEntityAlias\<close>, \<open>already exists\<close>, \<open>may be imported\<close>; \<open>q\<close> quotes a string.
\<close>

primrec alias_Error :: "(string \<Rightarrow> string) \<Rightarrow> alias_err \<Rightarrow> string" where
  "alias_Error q (AliasAlreadyExists name mount ident) =
     ''IdentityEntityAlias '' @ q name @ '' already exists on mount '' @ q mount
       @ '' with ID '' @ q ident @ '' and may be imported''"
| "alias_Error q (AliasInvalid m) = m"

text \<open>
  Modelled from the spec: the create callback of the entity alias resource, which is missing
  from the sources.  Within a mount the name of an alias is unique: when the remote system
  already has an alias of this name on this mount, creating fails with the conflict error
  and writes nothing; otherwise the alias is added under the identifier the remote system
  gives it.
\<close>

definition identityEntityAliasCreate ::
  "string \<Rightarrow> string \<Rightarrow> string \<Rightarrow> string \<Rightarrow> entity_alias list
     \<Rightarrow> (alias_err + string) \<times> entity_alias list" where
  "identityEntityAliasCreate name mount canonical new_id aliases =
     (case List.find (\<lambda>a. alias_name a = name \<and> alias_mount_accessor a = mount) aliases of
        Some a \<Rightarrow> (Inl (AliasAlreadyExists name mount (alias_id a)), aliases)
      | None \<Rightarrow>
          (Inr new_id,
           aliases @ [\<lparr>alias_id = new_id, alias_name = name,
                        alias_mount_accessor = mount, alias_canonical_id = canonical\<rparr>]))"

section \<open>Example inputs\<close>

text \<open>A client whose server answers every read with \<open>rd\<close> and every write with \<open>wr\<close>.\<close>

definition fixed_client :: "(err + secret option) \<Rightarrow> (err + secret option) \<Rightarrow> unit client" where
  "fixed_client rd wr =
     \<lparr>remote = (), calls = [], read_fn = (\<lambda>r p. (rd, r)), write_fn = (\<lambda>r p data. (wr, r))\<rparr>"

text \<open>A resource with nothing declared and no identifier yet.\<close>

definition blank_resource :: resource_data where
  "blank_resource = \<lparr>rd_id = [], rd_attrs = Map.empty\<rparr>"

text \<open>A resource whose identifier is the path of the backend \<open>aws\<close>.\<close>

definition aws_resource :: resource_data where
  "aws_resource = \<lparr>rd_id = ''auth/aws/config/identity'', rd_attrs = Map.empty\<rparr>"

text \<open>A resource whose identifier is not a path of this resource.\<close>

definition stray_resource :: resource_data where
  "stray_resource = \<lparr>rd_id = ''sys/mounts'', rd_attrs = Map.empty\<rparr>"

text \<open>A resource with every field declared.\<close>

definition configured_resource :: resource_data where
  "configured_resource =
     \<lparr>rd_id = [],
      rd_attrs = [''backend'' \<mapsto> VString ''/aws-prod/'',
                  ''iam_alias'' \<mapsto> VString ''full_arn'',
                  ''iam_metadata'' \<mapsto> VStrings [''account_id''],
                  ''ec2_alias'' \<mapsto> VString ''instance_id'',
                  ''ec2_metadata'' \<mapsto> VStrings [''region'']]\<rparr>"

text \<open>An alias that the remote system already has.\<close>

definition github_alias :: entity_alias where
  "github_alias =
     \<lparr>alias_id = ''a1'', alias_name = ''my-entity-A'',
      alias_mount_accessor = ''auth_github_1'', alias_canonical_id = ''e1''\<rparr>"

section \<open>The matcher on the pattern of the resource\<close>

lemma upt_1_Suc_Suc: "[1..<Suc (Suc m)] = 1 # map Suc [1..<Suc m]"
proof -
  have "map Suc [1..<Suc m] = [Suc 1..<Suc (Suc m)]"
    by (rule map_Suc_upt)
  then show ?thesis
    by (simp add: upt_conv_Cons)
qed

lemma plus_iter_any:
  "plus_iter (step AnyCharNotNL) (pre, rest, caps) =
     map (\<lambda>k. (pre @ take k rest, drop k rest, caps))
         (rev [1..<Suc (length (takeWhile (\<lambda>c. c \<noteq> newline) rest))])"
proof (induction rest arbitrary: pre)
  case Nil
  show ?case by (subst plus_iter.simps) simp
next
  case (Cons x xs)
  show ?case
  proof (cases "x = newline")
    case True
    then show ?thesis by (subst plus_iter.simps) simp
  next
    case False
    let ?m = "length (takeWhile (\<lambda>c. c \<noteq> newline) xs)"
    have "plus_iter (step AnyCharNotNL) (pre, x # xs, caps) =
            plus_iter (step AnyCharNotNL) (pre @ [x], xs, caps) @ [(pre @ [x], xs, caps)]"
      using False by (subst plus_iter.simps) simp
    also have "\<dots> = map (\<lambda>k. (pre @ take k (x # xs), drop k (x # xs), caps))
                         (rev (map Suc [1..<Suc ?m]) @ [1])"
      by (simp add: Cons.IH rev_map)
    also have "rev (map Suc [1..<Suc ?m]) @ [1] = rev [1..<Suc (Suc ?m)]"
      by (simp only: upt_1_Suc_Suc rev.simps)
    finally show ?thesis using False by simp
  qed
qed

lemma concat_map_single:
  "distinct ks \<Longrightarrow> (\<And>k. k \<in> set ks \<Longrightarrow> P k \<Longrightarrow> k = k0) \<Longrightarrow>
   concat (map (\<lambda>k. if P k then [f k] else []) ks) = (if k0 \<in> set ks \<and> P k0 then [f k0] else [])"
  by (induction ks) auto

lemma takeWhile_length_ge:
  "k \<le> length xs \<Longrightarrow> (k \<le> length (takeWhile P xs)) = (\<forall>x \<in> set (take k xs). P x)"
proof (induction xs arbitrary: k)
  case Nil
  then show ?case by simp
next
  case (Cons a xs)
  then show ?case by (cases k) auto
qed

lemma take_drop_eq_iff:
  "(take (length w) ys = w \<and> drop (length w) ys = []) = (ys = w)"
  by (metis append_take_drop_id append_Nil2 take_all order_refl drop_all)

lemma step_literal_end:
  "step (Concat (Literal b) EndText) (pre, ys, c) = (if ys = b then [(pre @ b, [], c)] else [])"
  using take_drop_eq_iff [of b ys] by auto

lemma step_capture_plus:
  "step (Capture 1 (Plus AnyCharNotNL)) (pre, rest, [None]) =
     map (\<lambda>k. (pre @ take k rest, drop k rest, [Some (take k rest)]))
         (rev [1..<Suc (length (takeWhile (\<lambda>c. c \<noteq> newline) rest))])"
  by (simp add: plus_iter_any rev_map o_def)

lemma step_group_suffix:
  "step (Concat (Capture 1 (Plus AnyCharNotNL)) (Concat (Literal b) EndText))
        (pre, rest, [None]) =
     (if length b < length rest \<and> drop (length rest - length b) rest = b \<and>
         newline \<notin> set (take (length rest - length b) rest)
      then [(pre @ rest, [], [Some (take (length rest - length b) rest)])] else [])"
proof -
  let ?n = "length (takeWhile (\<lambda>c. c \<noteq> newline) rest)"
  let ?k0 = "length rest - length b"
  let ?f = "\<lambda>k. (pre @ take k rest @ b, [], [Some (take k rest)])"
  let ?ks = "rev [1..<Suc ?n]"
  have n_le: "?n \<le> length rest"
    by (rule length_takeWhile_le)
  have "step (Concat (Capture 1 (Plus AnyCharNotNL)) (Concat (Literal b) EndText))
             (pre, rest, [None]) =
        concat (map (step (Concat (Literal b) EndText))
                    (step (Capture 1 (Plus AnyCharNotNL)) (pre, rest, [None])))"
    by (rule step.simps(6))
  also have "\<dots> = concat (map (\<lambda>k. if drop k rest = b then [?f k] else []) ?ks)"
    by (simp only: step_capture_plus map_map o_def step_literal_end append_assoc)
  also have "\<dots> = (if ?k0 \<in> set ?ks \<and> drop ?k0 rest = b then [?f ?k0] else [])"
  proof -
    have dist: "distinct ?ks" by simp
    have uniq: "k = ?k0" if "k \<in> set ?ks" and d: "drop k rest = b" for k
    proof -
      from d have "length (drop k rest) = length b" by simp
      moreover from that n_le have "k \<le> length rest" by auto
      ultimately show "k = ?k0" by simp
    qed
    show ?thesis
      using concat_map_single [where ks = ?ks and P = "\<lambda>k. drop k rest = b"
          and f = ?f and ?k0.0 = ?k0, OF dist uniq] by blast
  qed
  also have "\<dots> = (if length b < length rest \<and> drop ?k0 rest = b \<and> newline \<notin> set (take ?k0 rest)
                   then [(pre @ rest, [], [Some (take ?k0 rest)])] else [])"
  proof (cases "drop ?k0 rest = b")
    case False
    then show ?thesis by simp
  next
    case True
    have "take ?k0 rest @ b = rest"
      using append_take_drop_id [of ?k0 rest] True by simp
    then have eq: "?f ?k0 = (pre @ rest, [], [Some (take ?k0 rest)])" by simp
    have le: "(?k0 \<le> ?n) = (\<forall>x \<in> set (take ?k0 rest). x \<noteq> newline)"
      by (rule takeWhile_length_ge) simp
    have "(?k0 \<in> set ?ks) = (Suc 0 \<le> ?k0 \<and> ?k0 \<le> ?n)"
      by (simp only: set_rev set_upt atLeastLessThan_iff less_Suc_eq_le One_nat_def)
    also have "(Suc 0 \<le> ?k0) = (length b < length rest)"
      by arith
    also have "(?k0 \<le> ?n) = (newline \<notin> set (take ?k0 rest))"
      unfolding le by blast
    finally have mem: "(?k0 \<in> set ?ks) = (length b < length rest \<and> newline \<notin> set (take ?k0 rest))" .
    show ?thesis
      unfolding mem eq using True by (simp only: conj_assoc simp_thms)
  qed
  finally show ?thesis .
qed

lemma step_anchored_prefix:
  "step (Concat BeginText (Concat (Literal a) g)) ([], p, caps) =
     (if take (length a) p = a then step g (a, drop (length a) p, caps) else [])"
  by simp

lemma wrapped_threads_match:
  assumes "x \<noteq> []" and "newline \<notin> set x"
  shows "step (Concat BeginText (Concat (Literal a)
                 (Concat (Capture 1 (Plus AnyCharNotNL)) (Concat (Literal b) EndText))))
              ([], a @ x @ b, [None]) = [(a @ x @ b, [], [Some x])]"
  using assms unfolding step_anchored_prefix step_group_suffix by simp

lemma wrapped_threads_nomatch:
  assumes "\<not> (\<exists>x. p = a @ x @ b \<and> x \<noteq> [] \<and> newline \<notin> set x)"
  shows "step (Concat BeginText (Concat (Literal a)
                 (Concat (Capture 1 (Plus AnyCharNotNL)) (Concat (Literal b) EndText))))
              ([], p, [None]) = []"
proof (cases "take (length a) p = a")
  case False
  then show ?thesis unfolding step_anchored_prefix by simp
next
  case True
  let ?r = "drop (length a) p"
  let ?x = "take (length ?r - length b) ?r"
  have p: "p = a @ ?r"
    using append_take_drop_id [of "length a" p] True by simp
  have "\<not> (length b < length ?r \<and> drop (length ?r - length b) ?r = b \<and> newline \<notin> set ?x)"
  proof
    assume c: "length b < length ?r \<and> drop (length ?r - length b) ?r = b \<and> newline \<notin> set ?x"
    then have "?r = ?x @ b"
      using append_take_drop_id [of "length ?r - length b" ?r] by simp
    with p have "p = a @ ?x @ b" by simp
    moreover from c have "?x \<noteq> []" by auto
    ultimately show False using assms c by blast
  qed
  then show ?thesis
    using True unfolding step_anchored_prefix step_group_suffix by simp
qed

lemma anchored_threads_later:
  "0 < k \<Longrightarrow> k \<le> length p \<Longrightarrow> step (Concat BeginText g) (take k p, drop k p, caps) = []"
  by (cases p) auto

lemma concat_map_all_Nil: "(\<And>k. k \<in> set ks \<Longrightarrow> f k = []) \<Longrightarrow> concat (map f ks) = []"
  by (induction ks) auto

lemma anchored_all_submatches:
  "all_submatches (Concat BeginText g) p = submatches_at (Concat BeginText g) p 0"
proof -
  let ?re = "Concat BeginText g"
  have later: "submatches_at ?re p k = []" if "k \<in> set [Suc 0..<Suc (length p)]" for k
  proof -
    from that have "0 < k" "k \<le> length p" by auto
    then show ?thesis
      unfolding submatches_at_def by (simp only: anchored_threads_later list.map)
  qed
  have upt: "[0..<Suc (length p)] = 0 # [Suc 0..<Suc (length p)]"
    by (rule upt_conv_Cons) simp
  have "all_submatches ?re p =
          submatches_at ?re p 0 @ concat (map (submatches_at ?re p) [Suc 0..<Suc (length p)])"
    unfolding all_submatches_def by (simp only: upt list.map concat.simps)
  also have "concat (map (submatches_at ?re p) [Suc 0..<Suc (length p)]) = []"
    using later by (rule concat_map_all_Nil)
  finally show ?thesis by simp
qed

lemma regex_NumSubexp: "NumSubexp awsAuthBackendConfigIdentityBackendFromPathRegex = 1"
  by (simp add: awsAuthBackendConfigIdentityBackendFromPathRegex_def)

lemma all_submatches_match:
  assumes "x \<noteq> []" and "newline \<notin> set x"
  shows "all_submatches awsAuthBackendConfigIdentityBackendFromPathRegex
           (''auth/'' @ x @ ''/config/identity'') = [[''auth/'' @ x @ ''/config/identity'', x]]"
proof -
  have "all_submatches awsAuthBackendConfigIdentityBackendFromPathRegex
           (''auth/'' @ x @ ''/config/identity'') =
        submatches_at awsAuthBackendConfigIdentityBackendFromPathRegex
           (''auth/'' @ x @ ''/config/identity'') 0"
    unfolding awsAuthBackendConfigIdentityBackendFromPathRegex_def
    by (rule anchored_all_submatches)
  also have "\<dots> = [[''auth/'' @ x @ ''/config/identity'', x]]"
    unfolding submatches_at_def regex_NumSubexp
    unfolding awsAuthBackendConfigIdentityBackendFromPathRegex_def
    using wrapped_threads_match [OF assms, of "''auth/''" "''/config/identity''"]
    by simp
  finally show ?thesis .
qed

lemma all_submatches_nomatch:
  assumes "\<not> (\<exists>x. p = ''auth/'' @ x @ ''/config/identity'' \<and> x \<noteq> [] \<and> newline \<notin> set x)"
  shows "all_submatches awsAuthBackendConfigIdentityBackendFromPathRegex p = []"
proof -
  have "all_submatches awsAuthBackendConfigIdentityBackendFromPathRegex p =
        submatches_at awsAuthBackendConfigIdentityBackendFromPathRegex p 0"
    unfolding awsAuthBackendConfigIdentityBackendFromPathRegex_def
    by (rule anchored_all_submatches)
  also have "\<dots> = []"
    unfolding submatches_at_def regex_NumSubexp
    unfolding awsAuthBackendConfigIdentityBackendFromPathRegex_def
    using wrapped_threads_nomatch [OF assms]
    by simp
  finally show ?thesis .
qed

section \<open>The path parser on every input\<close>

lemma MatchString_iff:
  "MatchString awsAuthBackendConfigIdentityBackendFromPathRegex p =
     (\<exists>x. p = ''auth/'' @ x @ ''/config/identity'' \<and> x \<noteq> [] \<and> newline \<notin> set x)"
proof (cases "\<exists>x. p = ''auth/'' @ x @ ''/config/identity'' \<and> x \<noteq> [] \<and> newline \<notin> set x")
  case True
  then obtain x where "p = ''auth/'' @ x @ ''/config/identity''" "x \<noteq> []" "newline \<notin> set x"
    by blast
  then show ?thesis
    unfolding MatchString_def using all_submatches_match [of x] by auto
next
  case False
  then show ?thesis
    unfolding MatchString_def using all_submatches_nomatch [of p] by simp
qed

lemma FindStringSubmatch_match:
  assumes "x \<noteq> []" and "newline \<notin> set x"
  shows "FindStringSubmatch awsAuthBackendConfigIdentityBackendFromPathRegex
     (''auth/'' @ x @ ''/config/identity'') = [''auth/'' @ x @ ''/config/identity'', x]"
  unfolding FindStringSubmatch_def all_submatches_match [OF assms] by (rule list.case)

lemma BackendFromPath_match:
  assumes "x \<noteq> []" and "newline \<notin> set x"
  shows "awsAuthBackendConfigIdentityBackendFromPath (''auth/'' @ x @ ''/config/identity'') = Inr x"
proof -
  have m: "MatchString awsAuthBackendConfigIdentityBackendFromPathRegex
             (''auth/'' @ x @ ''/config/identity'')"
    unfolding MatchString_iff using assms by blast
  show ?thesis
    unfolding awsAuthBackendConfigIdentityBackendFromPath_def
      FindStringSubmatch_match [OF assms] Let_def
    using m by simp
qed

lemma BackendFromPath_nomatch:
  "\<not> MatchString awsAuthBackendConfigIdentityBackendFromPathRegex p \<Longrightarrow>
   awsAuthBackendConfigIdentityBackendFromPath p = Inl NoBackendFound"
  by (simp add: awsAuthBackendConfigIdentityBackendFromPath_def)

lemma MatchString_BackendFromPath:
  assumes "MatchString awsAuthBackendConfigIdentityBackendFromPathRegex p"
  shows "\<exists>x. awsAuthBackendConfigIdentityBackendFromPath p = Inr x"
proof -
  from assms obtain x where "p = ''auth/'' @ x @ ''/config/identity''" "x \<noteq> []" "newline \<notin> set x"
    unfolding MatchString_iff by blast
  then show ?thesis
    using BackendFromPath_match [of x] by blast
qed

text \<open>
  The round trip through the path builder and the path parser holds for exactly the
  backend names whose trimmed form is not empty and has no newline.
\<close>

lemma BackendFromPath_Path_iff:
  "(awsAuthBackendConfigIdentityBackendFromPath (awsAuthBackendConfigIdentityPath b) =
      Inr (Trim b ''/'')) =
   (Trim b ''/'' \<noteq> [] \<and> newline \<notin> set (Trim b ''/''))"
proof
  assume r: "awsAuthBackendConfigIdentityBackendFromPath (awsAuthBackendConfigIdentityPath b) =
      Inr (Trim b ''/'')"
  have "MatchString awsAuthBackendConfigIdentityBackendFromPathRegex
          (awsAuthBackendConfigIdentityPath b)"
  proof (rule ccontr)
    assume "\<not> MatchString awsAuthBackendConfigIdentityBackendFromPathRegex
          (awsAuthBackendConfigIdentityPath b)"
    then have "awsAuthBackendConfigIdentityBackendFromPath (awsAuthBackendConfigIdentityPath b) =
        Inl NoBackendFound"
      by (rule BackendFromPath_nomatch)
    with r show False by simp
  qed
  then obtain x where x: "''auth/'' @ Trim b ''/'' @ ''/config/identity'' =
      ''auth/'' @ x @ ''/config/identity''" "x \<noteq> []" "newline \<notin> set x"
    unfolding MatchString_iff awsAuthBackendConfigIdentityPath_def by blast
  from x(1) have "Trim b ''/'' = x"
    by simp
  with x(2,3) show "Trim b ''/'' \<noteq> [] \<and> newline \<notin> set (Trim b ''/'')"
    by simp
next
  assume "Trim b ''/'' \<noteq> [] \<and> newline \<notin> set (Trim b ''/'')"
  then have "Trim b ''/'' \<noteq> []" and "newline \<notin> set (Trim b ''/'')"
    by blast+
  then show "awsAuthBackendConfigIdentityBackendFromPath (awsAuthBackendConfigIdentityPath b) =
      Inr (Trim b ''/'')"
    unfolding awsAuthBackendConfigIdentityPath_def by (rule BackendFromPath_match)
qed

lemma Trim_slash_aws: "Trim ''/aws/'' ''/'' = ''aws''"
  by (simp add: Trim_def)

section \<open>The requests of Read and Write\<close>

lemma Read_calls:
  "calls (snd (snd (awsAuthBackendConfigIdentityRead d meta))) = calls meta \<or>
   calls (snd (snd (awsAuthBackendConfigIdentityRead d meta))) = calls meta @ [ApiRead (rd_id d)]"
  by (auto simp: awsAuthBackendConfigIdentityRead_def Logical_Read_def Let_def
           split: sum.splits prod.splits option.splits)

lemma Write_calls:
  "calls (snd (snd (awsAuthBackendConfigIdentityWrite d meta))) ! length (calls meta) =
     ApiWrite (awsAuthBackendConfigIdentityPath (Get_string d ''backend''))
       (awsAuthBackendConfigIdentityWrite_data d)"
proof -
  let ?path = "awsAuthBackendConfigIdentityPath (Get_string d ''backend'')"
  let ?data = "awsAuthBackendConfigIdentityWrite_data d"
  obtain res r' where w: "write_fn meta (remote meta) ?path ?data = (res, r')"
    by (cases "write_fn meta (remote meta) ?path ?data")
  let ?meta' = "meta\<lparr>remote := r', calls := calls meta @ [ApiWrite ?path ?data]\<rparr>"
  show ?thesis
  proof (cases res)
    case (Inl e)
    with w show ?thesis
      by (simp add: awsAuthBackendConfigIdentityWrite_def Logical_Write_def Let_def)
  next
    case (Inr s)
    with w have eq: "awsAuthBackendConfigIdentityWrite d meta =
        awsAuthBackendConfigIdentityRead (SetId d ?path) ?meta'"
      by (simp add: awsAuthBackendConfigIdentityWrite_def Logical_Write_def Let_def)
    from Read_calls [of "SetId d ?path" ?meta'] show ?thesis
      unfolding eq by (auto simp: nth_append)
  qed
qed

lemma blank_resource_path:
  "awsAuthBackendConfigIdentityPath (Get_string blank_resource ''backend'') =
     ''auth/aws/config/identity''"
  by (simp add: awsAuthBackendConfigIdentityPath_def Get_string_def blank_resource_def
        schema_default_def Trim_def)

section \<open>The payload of Write\<close>

lemma Write_data_dom:
  "dom (awsAuthBackendConfigIdentityWrite_data d) =
     {''iam_alias'', ''iam_metadata'', ''ec2_alias'', ''ec2_metadata''}"
  by (auto simp: awsAuthBackendConfigIdentityWrite_data_def Let_def split: if_splits)

lemma data_iam_alias:
  "awsAuthBackendConfigIdentityWrite_data d ''iam_alias'' = Some (VString (Get_string d ''iam_alias''))"
  by (simp add: awsAuthBackendConfigIdentityWrite_data_def Let_def)

lemma data_ec2_alias:
  "awsAuthBackendConfigIdentityWrite_data d ''ec2_alias'' = Some (VString (Get_string d ''ec2_alias''))"
  by (simp add: awsAuthBackendConfigIdentityWrite_data_def Let_def)

lemma data_iam_metadata:
  "awsAuthBackendConfigIdentityWrite_data d ''iam_metadata'' =
     Some (VStrings (if snd (GetOk d ''iam_metadata'')
                     then TerraformSetToStringArray (fst (GetOk d ''iam_metadata'')) else []))"
  by (simp add: awsAuthBackendConfigIdentityWrite_data_def Let_def split: prod.splits)

lemma data_ec2_metadata:
  "awsAuthBackendConfigIdentityWrite_data d ''ec2_metadata'' =
     Some (VStrings (if snd (GetOk d ''ec2_metadata'')
                     then TerraformSetToStringArray (fst (GetOk d ''ec2_metadata'')) else []))"
  by (simp add: awsAuthBackendConfigIdentityWrite_data_def Let_def split: prod.splits)

lemma Get_string_unset:
  "rd_attrs d k = None \<Longrightarrow> Get_string d k = (case schema_default k of Some s \<Rightarrow> s | None \<Rightarrow> [])"
  by (simp add: Get_string_def)

lemma Get_string_set: "rd_attrs d k = Some (VString s) \<Longrightarrow> Get_string d k = s"
  by (simp add: Get_string_def)

lemma metadata_unset:
  "rd_attrs d k = None \<Longrightarrow>
   (if snd (GetOk d k) then TerraformSetToStringArray (fst (GetOk d k)) else []) = []"
  by (simp add: GetOk_def)

lemma metadata_set:
  "rd_attrs d k = Some (VStrings xs) \<Longrightarrow>
   (if snd (GetOk d k) then TerraformSetToStringArray (fst (GetOk d k)) else []) = xs"
  by (simp add: GetOk_def TerraformSetToStringArray_def)

lemma default_iam_alias: "schema_default ''iam_alias'' = Some ''role_id''"
  by (simp add: schema_default_def)

lemma default_ec2_alias: "schema_default ''ec2_alias'' = Some ''role_id''"
  by (simp add: schema_default_def)

section \<open>The claims\<close>

subsection \<open>C1: building a path and parsing it back\<close>

text \<open>
  C1, as amended.  For every backend name \<open>b\<close> whose trimmed form is not empty and has no
  newline character, parsing the path built from \<open>b\<close> succeeds and returns \<open>b\<close> with its
  leading and trailing \<open>/\<close> characters trimmed.
\<close>

theorem path_roundtrip:
  "Trim b ''/'' \<noteq> [] \<Longrightarrow> newline \<notin> set (Trim b ''/'') \<Longrightarrow>
   awsAuthBackendConfigIdentityBackendFromPath (awsAuthBackendConfigIdentityPath b) =
     Inr (Trim b ''/'')"
  unfolding awsAuthBackendConfigIdentityPath_def by (rule BackendFromPath_match)

text \<open>The backend name \<open>/aws/\<close> gives the path of \<open>aws\<close>, which parses back to \<open>aws\<close>.\<close>

theorem path_roundtrip_witness:
  "Trim ''/aws/'' ''/'' \<noteq> [] \<and> newline \<notin> set (Trim ''/aws/'' ''/'') \<and>
   awsAuthBackendConfigIdentityBackendFromPath (awsAuthBackendConfigIdentityPath ''/aws/'') =
     Inr ''aws''"
proof -
  have h1: "Trim ''/aws/'' ''/'' \<noteq> []"
    by (simp add: Trim_def)
  have h2: "newline \<notin> set (Trim ''/aws/'' ''/'')"
    by (simp add: Trim_def newline_def)
  from path_roundtrip [OF h1 h2] h1 h2 show ?thesis
    by (simp add: Trim_slash_aws)
qed

text \<open>
  C1 as stated, for every backend name, fails: the empty name gives the path
  \<open>auth//config/identity\<close>, and a name with a newline gives a path with a newline; the
  group \<open>(.+)\<close> matches neither, and the parser answers \<open>no backend found\<close>.
\<close>

theorem path_roundtrip_counterexample:
  "awsAuthBackendConfigIdentityBackendFromPath (awsAuthBackendConfigIdentityPath []) \<noteq>
     Inr (Trim [] ''/'') \<and>
   awsAuthBackendConfigIdentityBackendFromPath (awsAuthBackendConfigIdentityPath []) =
     Inl NoBackendFound \<and>
   awsAuthBackendConfigIdentityBackendFromPath
     (awsAuthBackendConfigIdentityPath [CHR ''a'', CHR 0x0A, CHR ''b'']) = Inl NoBackendFound"
  by code_simp

subsection \<open>C2: Read when the remote system has nothing at the path\<close>

text \<open>
  C2.  When the stored identifier matches the pattern and the remote read returns no
  payload and no error, Read sets the identifier to the empty string and returns \<open>nil\<close>;
  the fields of the resource stay as they were.  One read request is issued.
\<close>

theorem read_not_found_clears_id:
  assumes "MatchString awsAuthBackendConfigIdentityBackendFromPathRegex (rd_id d)"
    and "read_fn meta (remote meta) (rd_id d) = (Inr None, r')"
  shows "awsAuthBackendConfigIdentityRead d meta =
           (None, d\<lparr>rd_id := []\<rparr>,
            meta\<lparr>remote := r', calls := calls meta @ [ApiRead (rd_id d)]\<rparr>) \<and>
         rd_attrs (fst (snd (awsAuthBackendConfigIdentityRead d meta))) = rd_attrs d"
proof -
  from assms(1) obtain x where "awsAuthBackendConfigIdentityBackendFromPath (rd_id d) = Inr x"
    using MatchString_BackendFromPath by blast
  then show ?thesis
    using assms(2)
    by (simp add: awsAuthBackendConfigIdentityRead_def Logical_Read_def SetId_def Let_def)
qed

theorem read_not_found_clears_id_witness:
  "fst (awsAuthBackendConfigIdentityRead aws_resource (fixed_client (Inr None) (Inr None))) = None \<and>
   rd_id (fst (snd (awsAuthBackendConfigIdentityRead aws_resource
                      (fixed_client (Inr None) (Inr None))))) = [] \<and>
   calls (snd (snd (awsAuthBackendConfigIdentityRead aws_resource
                      (fixed_client (Inr None) (Inr None))))) = [ApiRead ''auth/aws/config/identity'']"
proof -
  have h1: "MatchString awsAuthBackendConfigIdentityBackendFromPathRegex (rd_id aws_resource)"
    by code_simp
  have h2: "read_fn (fixed_client (Inr None) (Inr None))
              (remote (fixed_client (Inr None) (Inr None))) (rd_id aws_resource) = (Inr None, ())"
    by (simp add: fixed_client_def)
  from read_not_found_clears_id [OF h1 h2] show ?thesis
    by (simp add: fixed_client_def aws_resource_def)
qed

subsection \<open>C3: the two outcomes of Write\<close>

text \<open>
  C3.  When the remote write fails, Write returns the error that wraps the path and the
  cause, and leaves the identifier (and the rest of the resource data) unchanged.  When
  the remote write succeeds, Write sets the identifier to the path it built and returns
  what Read returns from there.
\<close>

theorem write_fails_or_reads:
  fixes d :: resource_data and meta :: "'r client"
  defines "path \<equiv> awsAuthBackendConfigIdentityPath (Get_string d ''backend'')"
    and "data \<equiv> awsAuthBackendConfigIdentityWrite_data d"
  shows "(write_fn meta (remote meta) path data = (Inl e, r') \<longrightarrow>
            awsAuthBackendConfigIdentityWrite d meta =
              (Some (ErrorConfiguring path e), d,
               meta\<lparr>remote := r', calls := calls meta @ [ApiWrite path data]\<rparr>) \<and>
            Error q (ErrorConfiguring path e) =
              ''error configuring AWS auth identity config '' @ q path @ '': '' @ Error q e) \<and>
         (write_fn meta (remote meta) path data = (Inr s, r') \<longrightarrow>
            awsAuthBackendConfigIdentityWrite d meta =
              awsAuthBackendConfigIdentityRead (d\<lparr>rd_id := path\<rparr>)
                (meta\<lparr>remote := r', calls := calls meta @ [ApiWrite path data]\<rparr>))"
  unfolding path_def data_def
  by (simp add: awsAuthBackendConfigIdentityWrite_def Logical_Write_def Let_def SetId_def)

theorem write_fails_or_reads_witness:
  "fst (awsAuthBackendConfigIdentityWrite blank_resource
          (fixed_client (Inr None) (Inl (ClientError ''permission denied'')))) =
     Some (ErrorConfiguring ''auth/aws/config/identity'' (ClientError ''permission denied'')) \<and>
   rd_id (fst (snd (awsAuthBackendConfigIdentityWrite blank_resource
          (fixed_client (Inr None) (Inl (ClientError ''permission denied'')))))) = [] \<and>
   awsAuthBackendConfigIdentityWrite blank_resource (fixed_client (Inr None) (Inr None)) =
     awsAuthBackendConfigIdentityRead (blank_resource\<lparr>rd_id := ''auth/aws/config/identity''\<rparr>)
       ((fixed_client (Inr None) (Inr None))
          \<lparr>remote := (),
           calls := [ApiWrite ''auth/aws/config/identity''
                       (awsAuthBackendConfigIdentityWrite_data blank_resource)]\<rparr>)"
proof -
  let ?bad = "fixed_client (Inr None) (Inl (ClientError ''permission denied''))"
  let ?ok = "fixed_client (Inr None) (Inr None)"
  let ?path = "awsAuthBackendConfigIdentityPath (Get_string blank_resource ''backend'')"
  let ?data = "awsAuthBackendConfigIdentityWrite_data blank_resource"
  have h1: "write_fn ?bad (remote ?bad) ?path ?data = (Inl (ClientError ''permission denied''), ())"
    by (simp add: fixed_client_def)
  have h2: "write_fn ?ok (remote ?ok) ?path ?data = (Inr None, ())"
    by (simp add: fixed_client_def)
  have c0: "calls ?ok = []" and id0: "rd_id blank_resource = []"
    by (simp_all add: fixed_client_def blank_resource_def)
  from h1 write_fails_or_reads [of ?bad blank_resource "ClientError ''permission denied''" "()"]
  have a: "awsAuthBackendConfigIdentityWrite blank_resource ?bad =
      (Some (ErrorConfiguring ?path (ClientError ''permission denied'')), blank_resource,
       ?bad\<lparr>remote := (), calls := calls ?bad @ [ApiWrite ?path ?data]\<rparr>)"
    by blast
  from h2 write_fails_or_reads [of ?ok blank_resource _ "()" _ None]
  have b: "awsAuthBackendConfigIdentityWrite blank_resource ?ok =
      awsAuthBackendConfigIdentityRead (blank_resource\<lparr>rd_id := ?path\<rparr>)
        (?ok\<lparr>remote := (), calls := calls ?ok @ [ApiWrite ?path ?data]\<rparr>)"
    by blast
  show ?thesis
    unfolding a b blank_resource_path c0 by (simp add: id0)
qed

subsection \<open>C4: the keys of the payload\<close>

text \<open>
  C4, as amended.  The first request of Write is the write of its payload to the path of
  the backend, and the payload has the same four keys for every configuration:
  \<open>iam_alias\<close>, \<open>iam_metadata\<close>, \<open>ec2_alias\<close> and \<open>ec2_metadata\<close>.  An alias field that is
  not declared is sent with the default \<open>role_id\<close> of the schema, a metadata field that
  is not declared is sent as the empty list, and a declared field is sent as declared.
\<close>

theorem write_payload_keys:
  "calls (snd (snd (awsAuthBackendConfigIdentityWrite d meta))) ! length (calls meta) =
     ApiWrite (awsAuthBackendConfigIdentityPath (Get_string d ''backend''))
       (awsAuthBackendConfigIdentityWrite_data d) \<and>
   dom (awsAuthBackendConfigIdentityWrite_data d) =
     {''iam_alias'', ''iam_metadata'', ''ec2_alias'', ''ec2_metadata''} \<and>
   (rd_attrs d ''iam_alias'' = None \<longrightarrow>
      awsAuthBackendConfigIdentityWrite_data d ''iam_alias'' = Some (VString ''role_id'')) \<and>
   (rd_attrs d ''ec2_alias'' = None \<longrightarrow>
      awsAuthBackendConfigIdentityWrite_data d ''ec2_alias'' = Some (VString ''role_id'')) \<and>
   (rd_attrs d ''iam_metadata'' = None \<longrightarrow>
      awsAuthBackendConfigIdentityWrite_data d ''iam_metadata'' = Some (VStrings [])) \<and>
   (rd_attrs d ''ec2_metadata'' = None \<longrightarrow>
      awsAuthBackendConfigIdentityWrite_data d ''ec2_metadata'' = Some (VStrings [])) \<and>
   (rd_attrs d ''iam_alias'' = Some (VString a) \<longrightarrow>
      awsAuthBackendConfigIdentityWrite_data d ''iam_alias'' = Some (VString a)) \<and>
   (rd_attrs d ''ec2_alias'' = Some (VString b) \<longrightarrow>
      awsAuthBackendConfigIdentityWrite_data d ''ec2_alias'' = Some (VString b)) \<and>
   (rd_attrs d ''iam_metadata'' = Some (VStrings xs) \<longrightarrow>
      awsAuthBackendConfigIdentityWrite_data d ''iam_metadata'' = Some (VStrings xs)) \<and>
   (rd_attrs d ''ec2_metadata'' = Some (VStrings ys) \<longrightarrow>
      awsAuthBackendConfigIdentityWrite_data d ''ec2_metadata'' = Some (VStrings ys))"
proof -
  have a1: "rd_attrs d ''iam_alias'' = None \<longrightarrow>
       awsAuthBackendConfigIdentityWrite_data d ''iam_alias'' = Some (VString ''role_id'')"
    by (simp add: data_iam_alias Get_string_unset default_iam_alias)
  have a2: "rd_attrs d ''ec2_alias'' = None \<longrightarrow>
       awsAuthBackendConfigIdentityWrite_data d ''ec2_alias'' = Some (VString ''role_id'')"
    by (simp add: data_ec2_alias Get_string_unset default_ec2_alias)
  have a3: "rd_attrs d ''iam_metadata'' = None \<longrightarrow>
       awsAuthBackendConfigIdentityWrite_data d ''iam_metadata'' = Some (VStrings [])"
    unfolding data_iam_metadata using metadata_unset [of d "''iam_metadata''"] by simp
  have a4: "rd_attrs d ''ec2_metadata'' = None \<longrightarrow>
       awsAuthBackendConfigIdentityWrite_data d ''ec2_metadata'' = Some (VStrings [])"
    unfolding data_ec2_metadata using metadata_unset [of d "''ec2_metadata''"] by simp
  have b1: "rd_attrs d ''iam_alias'' = Some (VString a) \<longrightarrow>
       awsAuthBackendConfigIdentityWrite_data d ''iam_alias'' = Some (VString a)"
    by (simp add: data_iam_alias Get_string_set)
  have b2: "rd_attrs d ''ec2_alias'' = Some (VString b) \<longrightarrow>
       awsAuthBackendConfigIdentityWrite_data d ''ec2_alias'' = Some (VString b)"
    by (simp add: data_ec2_alias Get_string_set)
  have b3: "rd_attrs d ''iam_metadata'' = Some (VStrings xs) \<longrightarrow>
       awsAuthBackendConfigIdentityWrite_data d ''iam_metadata'' = Some (VStrings xs)"
    unfolding data_iam_metadata using metadata_set [of d "''iam_metadata''" xs] by simp
  have b4: "rd_attrs d ''ec2_metadata'' = Some (VStrings ys) \<longrightarrow>
       awsAuthBackendConfigIdentityWrite_data d ''ec2_metadata'' = Some (VStrings ys)"
    unfolding data_ec2_metadata using metadata_set [of d "''ec2_metadata''" ys] by simp
  show ?thesis
    using Write_calls [of d meta] Write_data_dom [of d] a1 a2 a3 a4 b1 b2 b3 b4
    by (intro conjI)
qed

text \<open>Nothing declared, and every field declared.\<close>

theorem write_payload_keys_witness:
  "dom (awsAuthBackendConfigIdentityWrite_data blank_resource) =
     {''iam_alias'', ''iam_metadata'', ''ec2_alias'', ''ec2_metadata''} \<and>
   awsAuthBackendConfigIdentityWrite_data blank_resource ''iam_alias'' = Some (VString ''role_id'') \<and>
   awsAuthBackendConfigIdentityWrite_data blank_resource ''ec2_alias'' = Some (VString ''role_id'') \<and>
   awsAuthBackendConfigIdentityWrite_data blank_resource ''iam_metadata'' = Some (VStrings []) \<and>
   awsAuthBackendConfigIdentityWrite_data blank_resource ''ec2_metadata'' = Some (VStrings []) \<and>
   awsAuthBackendConfigIdentityWrite_data configured_resource ''iam_alias'' =
     Some (VString ''full_arn'') \<and>
   awsAuthBackendConfigIdentityWrite_data configured_resource ''ec2_alias'' =
     Some (VString ''instance_id'') \<and>
   awsAuthBackendConfigIdentityWrite_data configured_resource ''iam_metadata'' =
     Some (VStrings [''account_id'']) \<and>
   awsAuthBackendConfigIdentityWrite_data configured_resource ''ec2_metadata'' =
     Some (VStrings [''region''])"
proof -
  have h: "rd_attrs blank_resource ''iam_alias'' = None"
    "rd_attrs blank_resource ''ec2_alias'' = None"
    "rd_attrs blank_resource ''iam_metadata'' = None"
    "rd_attrs blank_resource ''ec2_metadata'' = None"
    by (simp_all add: blank_resource_def)
  have g: "rd_attrs configured_resource ''iam_alias'' = Some (VString ''full_arn'')"
    "rd_attrs configured_resource ''ec2_alias'' = Some (VString ''instance_id'')"
    "rd_attrs configured_resource ''iam_metadata'' = Some (VStrings [''account_id''])"
    "rd_attrs configured_resource ''ec2_metadata'' = Some (VStrings [''region''])"
    by (simp_all add: configured_resource_def)
  note A = write_payload_keys
             [of blank_resource "fixed_client (Inr None) (Inr None)" "[]" "[]" "[]" "[]"]
  note B = write_payload_keys
             [of configured_resource "fixed_client (Inr None) (Inr None)"
                 "''full_arn''" "''instance_id''" "[''account_id'']" "[''region'']"]
  note A2 = A [THEN conjunct2]
  note A3 = A2 [THEN conjunct2]
  note A4 = A3 [THEN conjunct2]
  note A5 = A4 [THEN conjunct2]
  note A6 = A5 [THEN conjunct2]
  note B7 = B [THEN conjunct2, THEN conjunct2, THEN conjunct2, THEN conjunct2, THEN conjunct2,
               THEN conjunct2]
  note B8 = B7 [THEN conjunct2]
  note B9 = B8 [THEN conjunct2]
  note B10 = B9 [THEN conjunct2]
  show ?thesis
    by (intro conjI
          A2 [THEN conjunct1]
          A3 [THEN conjunct1, THEN mp, OF h(1)]
          A4 [THEN conjunct1, THEN mp, OF h(2)]
          A5 [THEN conjunct1, THEN mp, OF h(3)]
          A6 [THEN conjunct1, THEN mp, OF h(4)]
          B7 [THEN conjunct1, THEN mp, OF g(1)]
          B8 [THEN conjunct1, THEN mp, OF g(2)]
          B9 [THEN conjunct1, THEN mp, OF g(3)]
          B10 [THEN mp, OF g(4)])
qed

text \<open>
  C4 as stated fails: with nothing declared, \<open>iam_metadata\<close> is absent from the
  configuration and still a key of the map that Write passes to the remote write.
\<close>

theorem write_payload_absent_key_counterexample:
  "rd_attrs blank_resource ''iam_metadata'' = None \<and>
   calls (snd (snd (awsAuthBackendConfigIdentityWrite blank_resource
                      (fixed_client (Inr None) (Inr None))))) ! 0 =
     ApiWrite ''auth/aws/config/identity'' (awsAuthBackendConfigIdentityWrite_data blank_resource) \<and>
   awsAuthBackendConfigIdentityWrite_data blank_resource ''iam_metadata'' = Some (VStrings [])"
proof -
  have "calls (fixed_client (Inr None) (Inr None)) = []"
    by (simp add: fixed_client_def)
  with Write_calls [of blank_resource "fixed_client (Inr None) (Inr None)"]
  have "calls (snd (snd (awsAuthBackendConfigIdentityWrite blank_resource
                      (fixed_client (Inr None) (Inr None))))) ! 0 =
     ApiWrite ''auth/aws/config/identity'' (awsAuthBackendConfigIdentityWrite_data blank_resource)"
    by (simp add: blank_resource_path)
  moreover have "rd_attrs blank_resource ''iam_metadata'' = None"
    by (simp add: blank_resource_def)
  moreover have "awsAuthBackendConfigIdentityWrite_data blank_resource ''iam_metadata'' =
      Some (VStrings [])"
    by (simp add: awsAuthBackendConfigIdentityWrite_data_def GetOk_def blank_resource_def Let_def)
  ultimately show ?thesis by blast
qed

subsection \<open>C5: Delete\<close>

text \<open>
  C5.  Delete returns \<open>nil\<close> for every resource and every client, issues no request and
  leaves the remote state, the client and the resource data as they were.
\<close>

theorem delete_is_local_noop:
  "awsAuthBackendConfigIdentityDelete d meta = (None, d, meta) \<and>
   calls (snd (snd (awsAuthBackendConfigIdentityDelete d meta))) = calls meta \<and>
   remote (snd (snd (awsAuthBackendConfigIdentityDelete d meta))) = remote meta"
  by (simp add: awsAuthBackendConfigIdentityDelete_def)

subsection \<open>C6: the errors of the path parser\<close>

text \<open>
  C6.  The path parser returns \<open>no backend found\<close> for every path that the pattern does
  not match.  For every path that the pattern matches, \<open>FindStringSubmatch\<close> yields
  exactly two elements and the parser returns the second, the capture group.  So the
  error \<open>unexpected number of matches\<close> is never returned.
\<close>

theorem backend_from_path_errors:
  "(\<not> MatchString awsAuthBackendConfigIdentityBackendFromPathRegex path \<longrightarrow>
      awsAuthBackendConfigIdentityBackendFromPath path = Inl NoBackendFound) \<and>
   (MatchString awsAuthBackendConfigIdentityBackendFromPathRegex path \<longrightarrow>
      length (FindStringSubmatch awsAuthBackendConfigIdentityBackendFromPathRegex path) = 2 \<and>
      awsAuthBackendConfigIdentityBackendFromPath path =
        Inr (FindStringSubmatch awsAuthBackendConfigIdentityBackendFromPathRegex path ! 1)) \<and>
   awsAuthBackendConfigIdentityBackendFromPath path \<noteq> Inl (UnexpectedMatches n)"
proof (cases "MatchString awsAuthBackendConfigIdentityBackendFromPathRegex path")
  case False
  then show ?thesis by (simp add: BackendFromPath_nomatch)
next
  case True
  then obtain x where x: "path = ''auth/'' @ x @ ''/config/identity''" "x \<noteq> []" "newline \<notin> set x"
    unfolding MatchString_iff by blast
  have f: "FindStringSubmatch awsAuthBackendConfigIdentityBackendFromPathRegex path = [path, x]"
    unfolding x(1) using x(2,3) by (rule FindStringSubmatch_match)
  have b: "awsAuthBackendConfigIdentityBackendFromPath path = Inr x"
    unfolding x(1) using x(2,3) by (rule BackendFromPath_match)
  show ?thesis using True by (simp add: f b)
qed

theorem backend_from_path_errors_witness:
  "awsAuthBackendConfigIdentityBackendFromPath ''sys/mounts'' = Inl NoBackendFound \<and>
   length (FindStringSubmatch awsAuthBackendConfigIdentityBackendFromPathRegex
             ''auth/aws/config/identity'') = 2 \<and>
   awsAuthBackendConfigIdentityBackendFromPath ''auth/aws/config/identity'' =
     Inr (FindStringSubmatch awsAuthBackendConfigIdentityBackendFromPathRegex
            ''auth/aws/config/identity'' ! 1)"
proof -
  have h1: "\<not> MatchString awsAuthBackendConfigIdentityBackendFromPathRegex ''sys/mounts''"
    by code_simp
  have h2: "MatchString awsAuthBackendConfigIdentityBackendFromPathRegex ''auth/aws/config/identity''"
    by code_simp
  from h1 h2 backend_from_path_errors [of "''sys/mounts''"]
    backend_from_path_errors [of "''auth/aws/config/identity''"]
  show ?thesis by blast
qed

subsection \<open>C7: Read on an identifier that is not a path of the resource\<close>

text \<open>
  C7.  When the stored identifier does not match the pattern, Read returns the error
  \<open>invalid path\<close>, which names the identifier, and returns the client as it was: no
  request has been issued.
\<close>

theorem read_invalid_path_fails_first:
  assumes "\<not> MatchString awsAuthBackendConfigIdentityBackendFromPathRegex (rd_id d)"
  shows "awsAuthBackendConfigIdentityRead d meta =
           (Some (InvalidPath (rd_id d) NoBackendFound), d, meta) \<and>
         Error q (InvalidPath (rd_id d) NoBackendFound) =
           ''invalid path '' @ q (rd_id d) @ '' for AWS auth identity config:  no backend found''"
  using assms
  by (simp add: awsAuthBackendConfigIdentityRead_def BackendFromPath_nomatch Let_def)

theorem read_invalid_path_fails_first_witness:
  "fst (awsAuthBackendConfigIdentityRead stray_resource (fixed_client (Inr None) (Inr None))) =
     Some (InvalidPath ''sys/mounts'' NoBackendFound) \<and>
   calls (snd (snd (awsAuthBackendConfigIdentityRead stray_resource
                      (fixed_client (Inr None) (Inr None))))) = []"
proof -
  have h: "\<not> MatchString awsAuthBackendConfigIdentityBackendFromPathRegex (rd_id stray_resource)"
    by code_simp
  from read_invalid_path_fails_first [OF h, where meta = "fixed_client (Inr None) (Inr None)"]
  show ?thesis
    by (simp add: fixed_client_def stray_resource_def)
qed

subsection \<open>C8: Exists when the remote read succeeds\<close>

text \<open>
  C8.  When the remote read succeeds, Exists returns whether a payload came back,
  together with \<open>nil\<close>, for every stored identifier; the resource data, its identifier
  included, stays as it was.
\<close>

theorem exists_reports_presence:
  assumes "read_fn meta (remote meta) (rd_id d) = (Inr resp, r')"
  shows "awsAuthBackendConfigIdentityExists d meta =
           ((resp \<noteq> None, None), d,
            meta\<lparr>remote := r', calls := calls meta @ [ApiRead (rd_id d)]\<rparr>)"
  using assms by (simp add: awsAuthBackendConfigIdentityExists_def Logical_Read_def Let_def)

theorem exists_reports_presence_witness:
  "fst (awsAuthBackendConfigIdentityExists stray_resource (fixed_client (Inr None) (Inr None))) =
     (False, None) \<and>
   fst (awsAuthBackendConfigIdentityExists stray_resource
          (fixed_client (Inr (Some \<lparr>Data = Map.empty\<rparr>)) (Inr None))) = (True, None) \<and>
   fst (snd (awsAuthBackendConfigIdentityExists stray_resource (fixed_client (Inr None) (Inr None)))) =
     stray_resource"
proof -
  have h1: "read_fn (fixed_client (Inr None) (Inr None))
              (remote (fixed_client (Inr None) (Inr None))) (rd_id stray_resource) = (Inr None, ())"
    by (simp add: fixed_client_def)
  have h2: "read_fn (fixed_client (Inr (Some \<lparr>Data = Map.empty\<rparr>)) (Inr None))
              (remote (fixed_client (Inr (Some \<lparr>Data = Map.empty\<rparr>)) (Inr None)))
              (rd_id stray_resource) = (Inr (Some \<lparr>Data = Map.empty\<rparr>), ())"
    by (simp add: fixed_client_def)
  from exists_reports_presence [OF h1] exists_reports_presence [OF h2] show ?thesis
    by simp
qed

subsection \<open>C9: creating an alias that the remote system already has\<close>

text \<open>
  C9.  Creating an alias whose name and mount belong to an alias that the remote system
  already has fails; the error is the conflict error, not a validation error, its message
  has \<open>already exists\<close> and later \<open>may be imported\<close>, and the aliases of the remote system
  stay as they were.
\<close>

theorem alias_conflict_on_create:
  assumes "a \<in> set aliases" and "alias_name a = name" and "alias_mount_accessor a = mount"
  shows "\<exists>ident.
           identityEntityAliasCreate name mount canonical new_id aliases =
             (Inl (AliasAlreadyExists name mount ident), aliases) \<and>
           (\<exists>u v w. alias_Error q (AliasAlreadyExists name mount ident) =
              u @ ''already exists'' @ v @ ''may be imported'' @ w) \<and>
           (\<forall>m. AliasAlreadyExists name mount ident \<noteq> AliasInvalid m)"
proof -
  let ?P = "\<lambda>a. alias_name a = name \<and> alias_mount_accessor a = mount"
  from assms have "List.find ?P aliases \<noteq> None"
    by (auto simp: find_None_iff)
  then obtain a' where f: "List.find ?P aliases = Some a'"
    by blast
  have c: "identityEntityAliasCreate name mount canonical new_id aliases =
             (Inl (AliasAlreadyExists name mount (alias_id a')), aliases)"
    by (simp add: identityEntityAliasCreate_def f)
  have "alias_Error q (AliasAlreadyExists name mount (alias_id a')) =
          (''IdentityEntityAlias '' @ q name @ '' '') @ ''already exists'' @
          ('' on mount '' @ q mount @ '' with ID '' @ q (alias_id a') @ '' and '') @
          ''may be imported'' @ []"
    by simp
  then have "\<exists>u v w. alias_Error q (AliasAlreadyExists name mount (alias_id a')) =
              u @ ''already exists'' @ v @ ''may be imported'' @ w"
    by blast
  with c show ?thesis by blast
qed

theorem alias_conflict_on_create_witness:
  "\<exists>ident. identityEntityAliasCreate ''my-entity-A'' ''auth_github_1'' ''e1'' ''a2'' [github_alias] =
     (Inl (AliasAlreadyExists ''my-entity-A'' ''auth_github_1'' ident), [github_alias])"
proof -
  have h: "github_alias \<in> set [github_alias]" "alias_name github_alias = ''my-entity-A''"
    "alias_mount_accessor github_alias = ''auth_github_1''"
    by (simp_all add: github_alias_def)
  from alias_conflict_on_create [OF h, of "''e1''" "''a2''"] show ?thesis by blast
qed

subsection \<open>C10: Exists when the remote read fails\<close>

text \<open>
  C10.  When the remote read fails, Exists returns \<open>true\<close> together with the error that
  wraps the identifier and the cause.
\<close>

theorem exists_read_error_reports_true:
  assumes "read_fn meta (remote meta) (rd_id d) = (Inl e, r')"
  shows "awsAuthBackendConfigIdentityExists d meta =
           ((True, Some (ErrorCheckingExistence (rd_id d) e)), d,
            meta\<lparr>remote := r', calls := calls meta @ [ApiRead (rd_id d)]\<rparr>) \<and>
         Error q (ErrorCheckingExistence (rd_id d) e) =
           ''error checking for existence of AWS auth backend identity config '' @ q (rd_id d)
             @ '': '' @ Error q e"
  using assms by (simp add: awsAuthBackendConfigIdentityExists_def Logical_Read_def Let_def)

theorem exists_read_error_reports_true_witness:
  "fst (awsAuthBackendConfigIdentityExists aws_resource
          (fixed_client (Inl (ClientError ''connection refused'')) (Inr None))) =
     (True, Some (ErrorCheckingExistence ''auth/aws/config/identity''
                    (ClientError ''connection refused'')))"
proof -
  have h: "read_fn (fixed_client (Inl (ClientError ''connection refused'')) (Inr None))
             (remote (fixed_client (Inl (ClientError ''connection refused'')) (Inr None)))
             (rd_id aws_resource) = (Inl (ClientError ''connection refused''), ())"
    by (simp add: fixed_client_def)
  from exists_read_error_reports_true [OF h] show ?thesis
    by (simp add: aws_resource_def)
qed

end
